theory Spec2Isabelle
  imports Complex_Main
begin

section \<open>Values of the source language\<close>

text \<open>
  The parser works on JSON that the Figma REST API returns. A JSON number is modelled as a
  \<^typ>\<open>real\<close>: arithmetic is exact, without the rounding error of doubles, and there is
  no NaN and no infinity. An optional field is an \<^typ>\<open>'a option\<close>, a string a
  \<^typ>\<open>string\<close>. Strings are lists of 8-bit characters: a code point outside ASCII is the
  sequence of its UTF-8 bytes, and \<open>toLowerCase\<close> and \<open>trim\<close> act on the ASCII letters and
  the ASCII white space. \<open>Math.round\<close> rounds a half up.
\<close>

definition Math_round :: "real \<Rightarrow> int" where
  "Math_round x = \<lfloor>x + 1 / 2\<rfloor>"

text \<open>Truthiness of an optional number (\<open>undefined\<close> and \<open>0\<close> are falsy) and of an
  optional string (\<open>undefined\<close> and the empty string are falsy).\<close>

definition truthyNum :: "real option \<Rightarrow> bool" where
  "truthyNum x = (case x of None \<Rightarrow> False | Some v \<Rightarrow> v \<noteq> 0)"

definition truthyStr :: "string option \<Rightarrow> bool" where
  "truthyStr x = (case x of None \<Rightarrow> False | Some s \<Rightarrow> s \<noteq> [])"

definition lowerChar :: "char \<Rightarrow> char" where
  "lowerChar c =
     (case map_of (zip ''ABCDEFGHIJKLMNOPQRSTUVWXYZ'' ''abcdefghijklmnopqrstuvwxyz'') c of
        None \<Rightarrow> c | Some l \<Rightarrow> l)"

definition toLowerCase :: "string \<Rightarrow> string" where
  "toLowerCase s = map lowerChar s"

definition isSpace :: "char \<Rightarrow> bool" where
  "isSpace c = (c \<in> set [CHR '' '', CHR 0x09, CHR 0x0A, CHR 0x0B, CHR 0x0C, CHR 0x0D])"

definition trim :: "string \<Rightarrow> string" where
  "trim s = rev (dropWhile isSpace (rev (dropWhile isSpace s)))"

definition startsWith :: "string \<Rightarrow> string \<Rightarrow> bool" where
  "startsWith s p = (take (length p) s = p)"

text \<open>\<open>Number.prototype.toString(16)\<close> on an integer, and \<open>padStart(2, "0")\<close>.\<close>

definition hexDigit :: "nat \<Rightarrow> char" where
  "hexDigit d = ''0123456789abcdef'' ! d"

function toHexNat :: "nat \<Rightarrow> string" where
  "toHexNat n = (if n < 16 then [hexDigit n] else toHexNat (n div 16) @ [hexDigit (n mod 16)])"
  by pat_completeness auto
termination
  by (relation "measure (\<lambda>n. n)") auto

declare toHexNat.simps [simp del]

definition toString16 :: "int \<Rightarrow> string" where
  "toString16 i = (if i < 0 then CHR ''-'' # toHexNat (nat (- i)) else toHexNat (nat i))"

definition padStart2 :: "string \<Rightarrow> string" where
  "padStart2 s = replicate (2 - length s) (CHR ''0'') @ s"

section \<open>The data model of \<open>figma-parser.ts\<close>\<close>

subsection \<open>Input: \<open>FigmaNode\<close>\<close>

record Color =
  r_c :: real
  g_c :: real
  b_c :: real
  a_c :: real

record Fill =
  fill_type :: string
  color :: "Color option"
  fill_opacity :: "real option"

record BBox =
  bbox_x :: real
  bbox_y :: real
  bbox_width :: real
  bbox_height :: real

text \<open>The fields of a node other than its children. The source reads \<open>children\<close> only
  through \<open>node.children?.length\<close>, \<open>node.children && node.children.length > 0\<close>, a loop
  and \<open>some\<close>, so an absent list and an empty one behave alike: the tree keeps a plain
  list, empty when the field is absent.\<close>

record FigmaAttrs =
  id_n :: string
  name :: string
  type :: string
  characters :: "string option"
  absoluteBoundingBox :: "BBox option"
  fills :: "Fill list option"
  cornerRadius :: "real option"
  layoutMode :: "string option"
  itemSpacing :: "real option"
  paddingLeft :: "real option"
  paddingRight :: "real option"
  paddingTop :: "real option"
  paddingBottom :: "real option"
  opacity :: "real option"
  visible :: "bool option"

datatype FigmaNode = FigmaNode (attrs: FigmaAttrs) (children: "FigmaNode list")

subsection \<open>Output: \<open>SlimNode\<close> and \<open>SlimTree\<close>\<close>

record Padding =
  top_p :: "real option"
  right_p :: "real option"
  bottom_p :: "real option"
  left_p :: "real option"

text \<open>\<open>SF_SYMBOLS[trimmed]\<close> is a property read on a plain object: besides the 32 glyphs of
  the table it finds the members every object inherits from \<open>Object.prototype\<close>, which are
  functions or objects and therefore truthy.\<close>

datatype IconValue = SymbolName string | InheritedMember string

record SlimAttrs =
  name_s :: string
  type_s :: string
  content_s :: "string option"
  icon_s :: "IconValue option"
  fill_s :: "string option"
  opacity_s :: "real option"
  cornerRadius_s :: "real option"
  width_s :: "int option"
  height_s :: "int option"
  spacing_s :: "real option"
  padding_s :: "Padding option"

text \<open>\<open>children\<close> is only ever set to a non-empty array (\<open>if (children.length > 0)\<close>), so
  the absent field is the empty list.\<close>

datatype SlimNode = SlimNode (attrs_s: SlimAttrs) (children_s: "SlimNode list")

definition slimLeaf :: "string \<Rightarrow> string \<Rightarrow> SlimAttrs" where
  "slimLeaf n t =
     \<lparr>name_s = n, type_s = t, content_s = None, icon_s = None, fill_s = None,
      opacity_s = None, cornerRadius_s = None, width_s = None, height_s = None,
      spacing_s = None, padding_s = None\<rparr>"

record SlimTree =
  screen :: string
  width :: int
  height :: int
  components :: "SlimNode list"
  tokens :: "(string \<times> string) list"

subsection \<open>The SF Symbol table\<close>

definition SF_SYMBOLS :: "(string \<times> string) list" where
  "SF_SYMBOLS =
    [([CHR 0xF4, CHR 0x80, CHR 0x86, CHR 0x89], ''chevron.left''),
     ([CHR 0xF4, CHR 0x80, CHR 0x85, CHR 0x8D], ''questionmark''),
     ([CHR 0xF4, CHR 0x80, CHR 0x88, CHR 0x91], ''trash''),
     ([CHR 0xF4, CHR 0x80, CHR 0x86, CHR 0x84], ''xmark''),
     ([CHR 0xF4, CHR 0x80, CHR 0x86, CHR 0x85], ''checkmark''),
     ([CHR 0xF4, CHR 0x80, CHR 0x86, CHR 0x8A], ''chevron.right''),
     ([CHR 0xF4, CHR 0x80, CHR 0x9C, CHR 0x87], ''location''),
     ([CHR 0xF4, CHR 0x80, CHR 0x9B, CHR 0xBF], ''eye''),
     ([CHR 0xF4, CHR 0x80, CHR 0x8F, CHR 0xAD], ''photo.on.rectangle''),
     ([CHR 0xF4, CHR 0x80, CHR 0x8F, CHR 0xB0], ''photo.on.rectangle''),
     ([CHR 0xF4, CHR 0x80, CHR 0x89, CHR 0xA3], ''tag''),
     ([CHR 0xF4, CHR 0x82, CHR 0x9E, CHR 0xB7], ''trophy''),
     ([CHR 0xF4, CHR 0x81, CHR 0x83, CHR 0x90], ''photo.badge.plus''),
     ([CHR 0xF4, CHR 0x80, CHR 0x86, CHR 0xAA], ''globe''),
     ([CHR 0xF4, CHR 0x80, CHR 0x8E, CHR 0xA0], ''lock''),
     ([CHR 0xF4, CHR 0x80, CHR 0x85, CHR 0xB4], ''info.circle''),
     ([CHR 0xF4, CHR 0x80, CHR 0x8A, CHR 0xAB], ''heart''),
     ([CHR 0xF4, CHR 0x80, CHR 0x8A, CHR 0xAC], ''heart.fill''),
     ([CHR 0xF4, CHR 0x80, CHR 0x88, CHR 0x82], ''square.and.arrow.up''),
     ([CHR 0xF4, CHR 0x80, CHR 0x99, CHR 0xA7], ''person.2''),
     ([CHR 0xF4, CHR 0x80, CHR 0x89, CHR 0xA9], ''bookmark''),
     ([CHR 0xF4, CHR 0x80, CHR 0x8D, CHR 0x9F], ''ellipsis''),
     ([CHR 0xF4, CHR 0x80, CHR 0x8E, CHR 0x9E], ''gear''),
     ([CHR 0xF4, CHR 0x80, CHR 0xA3, CHR 0x98], ''camera''),
     ([CHR 0xF4, CHR 0x80, CHR 0x8F, CHR 0x9F], ''photo''),
     ([CHR 0xF4, CHR 0x80, CHR 0x85, CHR 0xBC], ''plus''),
     ([CHR 0xF4, CHR 0x80, CHR 0x85, CHR 0xBD], ''minus''),
     ([CHR 0xF4, CHR 0x80, CHR 0x8A, CHR 0x83], ''magnifyingglass''),
     ([CHR 0xF4, CHR 0x80, CHR 0x8B, CHR 0x82], ''bell''),
     ([CHR 0xF4, CHR 0x80, CHR 0x8B, CHR 0x83], ''bell.fill''),
     ([CHR 0xF4, CHR 0x80, CHR 0x8C, CHR 0x9C], ''house''),
     ([CHR 0xF4, CHR 0x80, CHR 0x8C, CHR 0x9D], ''house.fill'')]"

definition objectPrototypeMembers :: "string list" where
  "objectPrototypeMembers =
    [''constructor'', ''__defineGetter__'', ''__defineSetter__'', ''hasOwnProperty'',
     ''__lookupGetter__'', ''__lookupSetter__'', ''isPrototypeOf'', ''propertyIsEnumerable'',
     ''toString'', ''valueOf'', ''__proto__'', ''toLocaleString'']"

definition sfSymbol :: "string \<Rightarrow> IconValue option" where
  "sfSymbol k =
     (case map_of SF_SYMBOLS k of
        Some v \<Rightarrow> Some (SymbolName v)
      | None \<Rightarrow> if k \<in> set objectPrototypeMembers then Some (InheritedMember k) else None)"

section \<open>Rule 1: decorative and system nodes\<close>

definition isDecorative :: "FigmaNode \<Rightarrow> bool" where
  "isDecorative node =
     (if visible (attrs node) = Some False then True
      else let n = trim (toLowerCase (name (attrs node))) in
        if n = ''status bar'' \<or> n = ''time'' \<or> n = ''levels'' then True
        else if n = ''cellular connection'' \<or> n = ''wifi'' then True
        else if n = ''blur'' \<or> n = ''mask'' \<or> n = ''shadow'' \<or> n = ''tint'' then True
        else if n = ''glass effect'' \<or> startsWith n ''liquid glass'' then True
        else if n = ''bg'' \<or> n = ''background'' then True
        else if startsWith n ''scroll edge effect'' then True
        else if startsWith n ''scrollbar'' then True
        else if n = ''thumb'' \<or> n = ''grabber'' then True
        else if n = ''cap'' \<or> n = ''capacity'' \<or> n = ''border'' then True
        else if n = ''overlay'' \<and> length (children node) = 0 then True
        else False)"

section \<open>Rule 2: empty leaves\<close>

definition isEmptyLeaf :: "FigmaNode \<Rightarrow> bool" where
  "isEmptyLeaf node =
     (if type (attrs node) = ''TEXT'' \<and> truthyStr (map_option trim (characters (attrs node)))
      then False
      else if length (children node) > 0 then False
      else if type (attrs node) = ''VECTOR'' \<or> type (attrs node) = ''BOOLEAN_OPERATION''
      then False
      else if type (attrs node) = ''FRAME'' \<or> type (attrs node) = ''GROUP'' \<or>
              type (attrs node) = ''RECTANGLE'' \<or> type (attrs node) = ''INSTANCE'' \<or>
              type (attrs node) = ''COMPONENT''
      then True
      else False)"

section \<open>Rule 3: classification\<close>

definition hasImageFill :: "FigmaNode \<Rightarrow> bool" where
  "hasImageFill node =
     (case fills (attrs node) of
        None \<Rightarrow> False
      | Some fs \<Rightarrow> list_ex (\<lambda>f. fill_type f = ''IMAGE'') fs)"

fun hasTextDescendant :: "FigmaNode \<Rightarrow> bool" where
  "hasTextDescendant (FigmaNode a cs) =
     (if type a = ''TEXT'' then True else list_ex hasTextDescendant cs)"

definition classifyType :: "FigmaNode \<Rightarrow> string" where
  "classifyType node =
     (if type (attrs node) = ''TEXT'' then ''Text''
      else if type (attrs node) = ''VECTOR'' \<or> type (attrs node) = ''BOOLEAN_OPERATION''
      then ''Shape''
      else if hasImageFill node \<and> \<not> hasTextDescendant node then ''Image''
      else if layoutMode (attrs node) = Some ''HORIZONTAL'' then ''HStack''
      else if layoutMode (attrs node) = Some ''VERTICAL'' then ''VStack''
      else if type (attrs node) = ''INSTANCE'' \<or> type (attrs node) = ''COMPONENT''
      then ''Component''
      else if type (attrs node) = ''FRAME'' \<or> type (attrs node) = ''GROUP'' then ''Frame''
      else ''View'')"

section \<open>Helpers\<close>

definition rgbaToHex :: "Color \<Rightarrow> string" where
  "rgbaToHex c =
     (let r = Math_round (r_c c * 255); g = Math_round (g_c c * 255);
          b = Math_round (b_c c * 255);
          hex = ''#'' @ padStart2 (toString16 r) @ padStart2 (toString16 g)
                  @ padStart2 (toString16 b)
      in if a_c c < 1 then hex @ padStart2 (toString16 (Math_round (a_c c * 255))) else hex)"

definition getSolidFill :: "FigmaNode \<Rightarrow> string option" where
  "getSolidFill node =
     (case fills (attrs node) of
        None \<Rightarrow> None
      | Some fs \<Rightarrow>
          (case find (\<lambda>f. fill_type f = ''SOLID'' \<and> color f \<noteq> None) fs of
             None \<Rightarrow> None
           | Some f \<Rightarrow> (case color f of None \<Rightarrow> None | Some c \<Rightarrow> Some (rgbaToHex c))))"

definition hasMeaningfulPadding :: "FigmaNode \<Rightarrow> bool" where
  "hasMeaningfulPadding node =
     (truthyNum (paddingTop (attrs node)) \<or> truthyNum (paddingRight (attrs node)) \<or>
      truthyNum (paddingBottom (attrs node)) \<or> truthyNum (paddingLeft (attrs node)))"

definition keepTruthy :: "real option \<Rightarrow> real option" where
  "keepTruthy x = (if truthyNum x then x else None)"

definition getPadding :: "FigmaNode \<Rightarrow> Padding option" where
  "getPadding node =
     (if \<not> hasMeaningfulPadding node then None
      else Some \<lparr>top_p = keepTruthy (paddingTop (attrs node)),
                 right_p = keepTruthy (paddingRight (attrs node)),
                 bottom_p = keepTruthy (paddingBottom (attrs node)),
                 left_p = keepTruthy (paddingLeft (attrs node))\<rparr>)"

section \<open>The recursive parse\<close>

text \<open>The text leaf (the body of \<open>if (node.type === "TEXT" && node.characters)\<close>); the
  guard makes \<open>characters\<close> a non-empty string, so the first branch is never taken.\<close>

definition parseText :: "FigmaNode \<Rightarrow> SlimNode option" where
  "parseText node =
     (case characters (attrs node) of
        None \<Rightarrow> None
      | Some chars \<Rightarrow>
         (let trimmed = trim chars in
          if trimmed = [] then None
          else (case sfSymbol trimmed of
                  Some symbol \<Rightarrow>
                    Some (SlimNode
                      ((slimLeaf (name (attrs node)) ''Icon'')\<lparr>icon_s := Some symbol\<rparr>) [])
                | None \<Rightarrow>
                    (let textNode =
                           (slimLeaf (name (attrs node)) ''Text'')\<lparr>content_s := Some trimmed\<rparr>;
                         fill = getSolidFill node
                     in if truthyStr fill \<and> fill \<noteq> Some ''#000000'' \<and>
                           fill \<noteq> Some ''#000000ff''
                        then Some (SlimNode (textNode\<lparr>fill_s := fill\<rparr>) [])
                        else Some (SlimNode textNode [])))))"

text \<open>All children were filtered and the node is not a text node: an image survives
  alone, anything else is dropped.\<close>

definition parseChildless :: "FigmaNode \<Rightarrow> SlimNode option" where
  "parseChildless node =
     (if hasImageFill node then
        Some (SlimNode
          ((slimLeaf (name (attrs node)) ''Image'')
             \<lparr>cornerRadius_s := keepTruthy (cornerRadius (attrs node)),
              width_s := map_option (\<lambda>bbox. Math_round (bbox_width bbox))
                           (absoluteBoundingBox (attrs node)),
              height_s := map_option (\<lambda>bbox. Math_round (bbox_height bbox))
                            (absoluteBoundingBox (attrs node))\<rparr>) [])
      else None)"

text \<open>Single-child flattening: the test \<open>!(!isDefaultFill || hasVisibleCorner || hasOpacity)\<close>
  and the two returns under it.\<close>

definition isDefaultFill :: "FigmaNode \<Rightarrow> bool" where
  "isDefaultFill node =
     (let fill = getSolidFill node in
      \<not> truthyStr fill \<or> fill = Some ''#000000'' \<or> fill = Some ''#ffffff'' \<or>
      fill = Some ''#000000ff'' \<or> fill = Some ''#ffffffff'')"

definition hasVisibleCorner :: "FigmaNode \<Rightarrow> bool" where
  "hasVisibleCorner node =
     (case cornerRadius (attrs node) of
        None \<Rightarrow> False
      | Some c \<Rightarrow> c \<noteq> 0 \<and> c > 0 \<and> c < 100)"

definition hasOpacity :: "FigmaNode \<Rightarrow> bool" where
  "hasOpacity node = (case opacity (attrs node) of None \<Rightarrow> False | Some q \<Rightarrow> q < 1)"

definition isGenericName :: "string \<Rightarrow> bool" where
  "isGenericName currentName =
     (startsWith currentName ''frame'' \<or> currentName = ''container'' \<or>
      currentName = ''contents'' \<or> currentName = ''content'' \<or>
      startsWith currentName ''accessories'' \<or> startsWith currentName ''_'' \<or>
      currentName = ''text'' \<or> currentName = ''image'')"

definition flatten :: "FigmaNode \<Rightarrow> SlimNode \<Rightarrow> SlimNode" where
  "flatten node child =
     (if isGenericName (toLowerCase (name (attrs node))) then child
      else SlimNode ((attrs_s child)\<lparr>name_s := name (attrs node)\<rparr>) (children_s child))"

text \<open>The default construction (\<open>Build the slim node\<close> to the end of \<open>parse\<close>).\<close>

definition buildSlim :: "FigmaNode \<Rightarrow> bool \<Rightarrow> SlimNode list \<Rightarrow> SlimNode" where
  "buildSlim node isRoot children' =
     (let type' = classifyType node;
          fill = getSolidFill node;
          stack = (type' = ''HStack'' \<or> type' = ''VStack'');
          sized = (type' = ''Image'' \<or> isRoot)
      in SlimNode
          \<lparr>name_s = name (attrs node),
           type_s = type',
           content_s = None,
           icon_s = None,
           fill_s = (if truthyStr fill \<and> fill \<noteq> Some ''#000000'' \<and> fill \<noteq> Some ''#ffffff'' \<and>
                        fill \<noteq> Some ''#000000ff'' \<and> fill \<noteq> Some ''#ffffffff''
                     then fill else None),
           opacity_s = (case opacity (attrs node) of
                          None \<Rightarrow> None
                        | Some q \<Rightarrow> if q < 1 then Some (real_of_int (Math_round (q * 100)) / 100)
                                    else None),
           cornerRadius_s = (case cornerRadius (attrs node) of
                               None \<Rightarrow> None
                             | Some c \<Rightarrow> if c \<noteq> 0 \<and> c > 0 \<and> c < 999 then Some c else None),
           width_s = (if sized
                      then map_option (\<lambda>bbox. Math_round (bbox_width bbox))
                             (absoluteBoundingBox (attrs node))
                      else None),
           height_s = (if sized
                       then map_option (\<lambda>bbox. Math_round (bbox_height bbox))
                              (absoluteBoundingBox (attrs node))
                       else None),
           spacing_s = (if stack then keepTruthy (itemSpacing (attrs node)) else None),
           padding_s = (if stack then getPadding node else None)\<rparr>
          children')"

text \<open>\<open>parse(node, depth, isRoot)\<close>, with its four returns of a node written above:
  \<open>parseText\<close> (lines 196-207), \<open>parseChildless\<close> (lines 222-231), \<open>flatten\<close> (lines
  250-259) and \<open>buildSlim\<close> (lines 264-302). \<open>parseChildren\<close> is the loop that pushes the
  non-null results of \<open>parse(child, depth + 1)\<close> (with \<open>isRoot\<close> at its default
  \<open>false\<close>) in order.\<close>

fun parse :: "FigmaNode \<Rightarrow> nat \<Rightarrow> bool \<Rightarrow> SlimNode option"
  and parseChildren :: "FigmaNode list \<Rightarrow> nat \<Rightarrow> SlimNode list" where
  "parse (FigmaNode a cs) depth isRoot =
     (if depth > 20 then None
      else if isDecorative (FigmaNode a cs) then None
      else if isEmptyLeaf (FigmaNode a cs) then None
      else if type a = ''TEXT'' \<and> truthyStr (characters a) then parseText (FigmaNode a cs)
      else if length (parseChildren cs (depth + 1)) = 0 \<and> type a \<noteq> ''TEXT''
        then parseChildless (FigmaNode a cs)
      else if length (parseChildren cs (depth + 1)) = 1 \<and> \<not> isRoot \<and>
              \<not> (\<not> isDefaultFill (FigmaNode a cs) \<or> hasVisibleCorner (FigmaNode a cs) \<or>
                 hasOpacity (FigmaNode a cs))
        then Some (flatten (FigmaNode a cs) (parseChildren cs (depth + 1) ! 0))
      else Some (buildSlim (FigmaNode a cs) isRoot (parseChildren cs (depth + 1))))"
| "parseChildren [] depth = []"
| "parseChildren (child # rest) depth =
     (case parse child depth False of
        None \<Rightarrow> parseChildren rest depth
      | Some parsed \<Rightarrow> parsed # parseChildren rest depth)"

section \<open>Design tokens\<close>

datatype JsValue = JString string | JOther

text \<open>\<open>tokens[key] = value\<close> on a plain object: the key \<open>__proto__\<close> reaches the inherited
  setter, which ignores a string, so no entry is made for it.\<close>

definition extractTokens :: "(string \<times> JsValue) list \<Rightarrow> (string \<times> string) list" where
  "extractTokens styles' =
     concat (map (\<lambda>(key, v). case v of
                     JString s \<Rightarrow> if key = ''__proto__'' then [] else [(key, s)]
                   | JOther \<Rightarrow> []) styles')"

section \<open>The Figma API client\<close>

text \<open>\<open>fetch\<close> is outside the program: a call either rejects (a network failure) or
  resolves to a response with its \<open>ok\<close> flag, its status, its body text and the value
  \<open>response.json()\<close> yields (\<open>None\<close> when the body is not JSON and \<open>json()\<close> rejects). A
  parsed JSON object is the list of its entries, and \<open>data.nodes[nodeId]\<close> a lookup in it.
  An exception of the source is the \<open>Inl\<close> of a result.\<close>

record 'j Response =
  ok :: bool
  status :: nat
  text_body :: string
  json :: "'j option"

datatype 'j FetchOutcome = Rejected string | Resolved "'j Response"

datatype Error =
    FigmaApiError nat string
  | NodeNotFound string string
  | NetworkError string
  | InvalidJson

record NodeData =
  document :: FigmaNode
  styles :: "(string \<times> JsValue) list option"

type_synonym NodesJson = "(string \<times> NodeData) list"
type_synonym VariablesJson = "(string \<times> JsValue) list"

record Api =
  getNodes :: "string \<Rightarrow> string \<Rightarrow> string \<Rightarrow> NodesJson FetchOutcome"
  getVariables :: "string \<Rightarrow> string \<Rightarrow> VariablesJson FetchOutcome"

definition fetchFigmaNode ::
  "Api \<Rightarrow> string \<Rightarrow> string \<Rightarrow> string \<Rightarrow> Error + (FigmaNode \<times> (string \<times> JsValue) list)" where
  "fetchFigmaNode api fileKey nodeId token =
     (case getNodes api fileKey nodeId token of
        Rejected msg \<Rightarrow> Inl (NetworkError msg)
      | Resolved response \<Rightarrow>
          if \<not> ok response then Inl (FigmaApiError (status response) (text_body response))
          else (case json response of
                  None \<Rightarrow> Inl InvalidJson
                | Some nodes \<Rightarrow>
                    (case map_of nodes nodeId of
                       None \<Rightarrow> Inl (NodeNotFound nodeId fileKey)
                     | Some nodeData \<Rightarrow>
                         Inr (document nodeData,
                              (case styles nodeData of None \<Rightarrow> [] | Some st \<Rightarrow> st)))))"

text \<open>\<open>console.error\<close> is the list of lines written, returned beside the result.\<close>

datatype LogLine = VariablesApiErrorLine nat

definition fetchFigmaVariables ::
  "Api \<Rightarrow> string \<Rightarrow> string \<Rightarrow> LogLine list \<times> (Error + VariablesJson)" where
  "fetchFigmaVariables api fileKey token =
     (case getVariables api fileKey token of
        Rejected msg \<Rightarrow> ([], Inl (NetworkError msg))
      | Resolved response \<Rightarrow>
          if \<not> ok response then ([VariablesApiErrorLine (status response)], Inr [])
          else (case json response of
                  None \<Rightarrow> ([], Inl InvalidJson)
                | Some vars \<Rightarrow> ([], Inr vars)))"

section \<open>Main export and the tool\<close>

definition assemble :: "FigmaNode \<Rightarrow> (string \<times> JsValue) list \<Rightarrow> SlimTree" where
  "assemble node styles' =
     (let tokens' = extractTokens styles';
          bbox = absoluteBoundingBox (attrs node);
          parsed = parse node 0 True
      in \<lparr>screen = name (attrs node),
          width = (case bbox of None \<Rightarrow> 0 | Some bb \<Rightarrow> Math_round (bbox_width bb)),
          height = (case bbox of None \<Rightarrow> 0 | Some bb \<Rightarrow> Math_round (bbox_height bb)),
          components = (case parsed of
                          None \<Rightarrow> []
                        | Some p \<Rightarrow> if children_s p \<noteq> [] then children_s p else [p]),
          tokens = tokens'\<rparr>)"

definition getSwiftTree :: "Api \<Rightarrow> string \<Rightarrow> string \<Rightarrow> string \<Rightarrow> Error + SlimTree" where
  "getSwiftTree api fileKey nodeId token =
     (case fetchFigmaNode api fileKey nodeId token of
        Inl e \<Rightarrow> Inl e
      | Inr (node, styles') \<Rightarrow> Inr (assemble node styles'))"

text \<open>The handler of the tool \<open>get_swift_tree\<close>. Its input object has the three fields of
  the schema (\<open>depth\<close> is an optional number); the handler destructures \<open>fileKey\<close> and
  \<open>nodeId\<close> only, and \<open>try\<close>/\<open>catch\<close> turns an exception into an error result. The text it
  returns is \<open>JSON.stringify\<close> of the tree, a function of the tree, so the model returns the
  tree.\<close>

record ToolInput =
  arg_fileKey :: string
  arg_nodeId :: string
  arg_depth :: "real option"

datatype ToolResult = ToolText SlimTree | ToolError Error

definition get_swift_tree :: "Api \<Rightarrow> string \<Rightarrow> ToolInput \<Rightarrow> ToolResult" where
  "get_swift_tree api FIGMA_TOKEN input =
     (case getSwiftTree api (arg_fileKey input) (arg_nodeId input) FIGMA_TOKEN of
        Inr tree \<Rightarrow> ToolText tree
      | Inl e \<Rightarrow> ToolError e)"

section \<open>The nodes of a tree\<close>

fun slimNodes :: "SlimNode \<Rightarrow> SlimNode list" where
  "slimNodes (SlimNode a cs) = SlimNode a cs # concat (map slimNodes cs)"

fun rawNodes :: "FigmaNode \<Rightarrow> FigmaNode list" where
  "rawNodes (FigmaNode a cs) = FigmaNode a cs # concat (map rawNodes cs)"

section \<open>The specification's wording, as definitions\<close>

text \<open>The classifier as the specification words it: a list of rules tried in order, the
  first match winning, \<open>View\<close> as the default; ``has at least one image fill'' and ``some
  node of the subtree, the node itself included, is of text kind''.\<close>

definition hasTextInSubtree :: "FigmaNode \<Rightarrow> bool" where
  "hasTextInSubtree node = list_ex (\<lambda>m. type (attrs m) = ''TEXT'') (rawNodes node)"

definition hasAtLeastOneImageFill :: "FigmaNode \<Rightarrow> bool" where
  "hasAtLeastOneImageFill node =
     (case fills (attrs node) of
        None \<Rightarrow> False
      | Some fs \<Rightarrow> filter (\<lambda>f. fill_type f = ''IMAGE'') fs \<noteq> [])"

definition classifyRules :: "FigmaNode \<Rightarrow> (bool \<times> string) list" where
  "classifyRules node =
     [(type (attrs node) = ''TEXT'', ''Text''),
      (type (attrs node) \<in> set [''VECTOR'', ''BOOLEAN_OPERATION''], ''Shape''),
      (hasAtLeastOneImageFill node \<and> \<not> hasTextInSubtree node, ''Image''),
      (layoutMode (attrs node) = Some ''HORIZONTAL'', ''HStack''),
      (layoutMode (attrs node) = Some ''VERTICAL'', ''VStack''),
      (type (attrs node) \<in> set [''INSTANCE'', ''COMPONENT''], ''Component''),
      (type (attrs node) \<in> set [''FRAME'', ''GROUP''], ''Frame'')]"

definition firstMatch :: "(bool \<times> string) list \<Rightarrow> string \<Rightarrow> string" where
  "firstMatch rules dflt = (case find fst rules of None \<Rightarrow> dflt | Some rule \<Rightarrow> snd rule)"

text \<open>A number rounded to two decimals.\<close>

definition round2 :: "real \<Rightarrow> real" where
  "round2 q = real_of_int (Math_round (q * 100)) / 100"

text \<open>The name patterns of the decorative denylist (system chrome, visual-effect layers,
  background placeholders, scroll chrome, structural noise), and the denylist read on an
  output node: one of these patterns, or a childless node named \<open>overlay\<close>.\<close>

definition denylistName :: "string \<Rightarrow> bool" where
  "denylistName n =
     (n \<in> set [''status bar'', ''time'', ''levels'', ''cellular connection'', ''wifi'',
                ''blur'', ''mask'', ''shadow'', ''tint'', ''glass effect'',
                ''bg'', ''background'', ''thumb'', ''grabber'',
                ''cap'', ''capacity'', ''border''] \<or>
      list_ex (startsWith n) [''liquid glass'', ''scroll edge effect'', ''scrollbar''])"

definition matchesDenylist :: "SlimNode \<Rightarrow> bool" where
  "matchesDenylist t =
     (let n = trim (toLowerCase (name_s (attrs_s t)))
      in denylistName n \<or> (n = ''overlay'' \<and> children_s t = []))"

text \<open>The raw nodes at most \<open>k\<close> levels below a node, and what it means for an output node
  to be made of them: its name is the name of one of them, its text content the trimmed
  characters of one of them, its icon the symbol of the trimmed characters of one of them.\<close>

fun nodesWithin :: "nat \<Rightarrow> FigmaNode \<Rightarrow> FigmaNode list" where
  "nodesWithin k (FigmaNode a cs) =
     FigmaNode a cs # (case k of 0 \<Rightarrow> [] | Suc j \<Rightarrow> concat (map (nodesWithin j) cs))"

definition fromWithin :: "nat \<Rightarrow> FigmaNode \<Rightarrow> SlimNode \<Rightarrow> bool" where
  "fromWithin k n t =
     (list_ex (\<lambda>m. name_s (attrs_s t) = name (attrs m)) (nodesWithin k n) \<and>
      (case content_s (attrs_s t) of
         None \<Rightarrow> True
       | Some c \<Rightarrow> list_ex (\<lambda>m. map_option trim (characters (attrs m)) = Some c) (nodesWithin k n)) \<and>
      (case icon_s (attrs_s t) of
         None \<Rightarrow> True
       | Some i \<Rightarrow> list_ex (\<lambda>m. case characters (attrs m) of None \<Rightarrow> False
                                 | Some w \<Rightarrow> sfSymbol (trim w) = Some i) (nodesWithin k n)))"

section \<open>Example inputs\<close>

text \<open>A node with every optional field absent.\<close>

definition rawAttrs :: "string \<Rightarrow> string \<Rightarrow> string \<Rightarrow> FigmaAttrs" where
  "rawAttrs i n t =
     \<lparr>id_n = i, name = n, type = t, characters = None, absoluteBoundingBox = None,
      fills = None, cornerRadius = None, layoutMode = None, itemSpacing = None,
      paddingLeft = None, paddingRight = None, paddingTop = None, paddingBottom = None,
      opacity = None, visible = None\<rparr>"

definition blackFill :: Fill where
  "blackFill =
     \<lparr>fill_type = ''SOLID'', color = Some \<lparr>r_c = 0, g_c = 0, b_c = 0, a_c = 1\<rparr>,
      fill_opacity = None\<rparr>"

text \<open>The scenario of the specification: a vertical auto-layout frame (item spacing 12, no
  padding) holding the text \<open>Hello\<close> with a black fill and a frame \<open>Icon Wrapper\<close> around a
  single vector.\<close>

definition helloText :: FigmaNode where
  "helloText =
     FigmaNode ((rawAttrs ''1:2'' ''Greeting'' ''TEXT'')
                  \<lparr>characters := Some ''Hello'', fills := Some [blackFill]\<rparr>) []"

definition iconVector :: FigmaNode where
  "iconVector = FigmaNode ((rawAttrs ''1:4'' ''Vector'' ''VECTOR'')\<lparr>fills := Some [blackFill]\<rparr>) []"

definition iconWrapper :: FigmaNode where
  "iconWrapper = FigmaNode (rawAttrs ''1:3'' ''Icon Wrapper'' ''FRAME'') [iconVector]"

definition scenarioRoot :: FigmaNode where
  "scenarioRoot =
     FigmaNode ((rawAttrs ''1:1'' ''Screen'' ''FRAME'')
                  \<lparr>layoutMode := Some ''VERTICAL'', itemSpacing := Some 12\<rparr>)
       [helloText, iconWrapper]"

text \<open>A frame with an image fill and a horizontal auto-layout axis.\<close>

definition imageFill :: Fill where
  "imageFill = \<lparr>fill_type = ''IMAGE'', color = None, fill_opacity = None\<rparr>"

definition photoRow :: FigmaNode where
  "photoRow =
     FigmaNode ((rawAttrs ''2:1'' ''Photo Row'' ''FRAME'')
                  \<lparr>fills := Some [imageFill], layoutMode := Some ''HORIZONTAL''\<rparr>)
       [iconVector]"

text \<open>Nodes with an opacity below 1.\<close>

definition fadedText :: FigmaNode where
  "fadedText =
     FigmaNode ((rawAttrs ''3:2'' ''Caption'' ''TEXT'')
                  \<lparr>characters := Some ''Hello'', opacity := Some (1 / 2)\<rparr>) []"

definition fadedCard :: FigmaNode where
  "fadedCard =
     FigmaNode ((rawAttrs ''3:1'' ''Card'' ''FRAME'')\<lparr>opacity := Some (456 / 1000)\<rparr>)
       [helloText, fadedText]"

text \<open>Wrappers around a single text.\<close>

definition labelText :: FigmaNode where
  "labelText = FigmaNode ((rawAttrs ''4:2'' ''Label'' ''TEXT'')\<lparr>characters := Some ''Continue''\<rparr>) []"

definition frameWrapper :: FigmaNode where
  "frameWrapper = FigmaNode (rawAttrs ''4:1'' ''Frame 1'' ''FRAME'') [labelText]"

definition actionWrapper :: FigmaNode where
  "actionWrapper = FigmaNode (rawAttrs ''4:3'' ''Primary Action'' ''FRAME'') [labelText]"

definition containerWrapper :: FigmaNode where
  "containerWrapper = FigmaNode (rawAttrs ''4:4'' ''Container'' ''FRAME'') [labelText]"

definition overlayWrapper :: FigmaNode where
  "overlayWrapper = FigmaNode (rawAttrs ''5:2'' ''Overlay'' ''FRAME'') [labelText]"

definition overlayScreen :: FigmaNode where
  "overlayScreen = FigmaNode (rawAttrs ''5:1'' ''Sheet'' ''FRAME'') [helloText, overlayWrapper]"

text \<open>A card with a pill radius.\<close>

definition pillCard :: FigmaNode where
  "pillCard =
     FigmaNode ((rawAttrs ''6:1'' ''Card'' ''FRAME'')\<lparr>cornerRadius := Some 500\<rparr>)
       [helloText, labelText]"

text \<open>Text nodes without characters.\<close>

definition emptyText :: FigmaNode where
  "emptyText = FigmaNode ((rawAttrs ''7:1'' ''Placeholder'' ''TEXT'')\<lparr>characters := Some []\<rparr>) []"

definition hiddenEmptyText :: FigmaNode where
  "hiddenEmptyText =
     FigmaNode ((rawAttrs ''7:2'' ''Placeholder'' ''TEXT'')
                  \<lparr>characters := Some [], visible := Some False\<rparr>) []"

definition blankText :: FigmaNode where
  "blankText = FigmaNode ((rawAttrs ''7:3'' ''Placeholder'' ''TEXT'')\<lparr>characters := Some ''  ''\<rparr>) []"

text \<open>An API whose file endpoint serves the scenario and whose variables endpoint answers
  403.\<close>

definition demoApi :: Api where
  "demoApi =
     \<lparr>getNodes = (\<lambda>fileKey nodeId token.
        Resolved \<lparr>ok = True, status = 200, text_body = [],
                  json = Some [(''1:1'', \<lparr>document = scenarioRoot, styles = None\<rparr>)]\<rparr>),
      getVariables = (\<lambda>fileKey token.
        Resolved \<lparr>ok = False, status = 403, text_body = ''Forbidden'', json = None\<rparr>)\<rparr>"

section \<open>Auxiliary facts\<close>

lemmas eval_defs =
  rawAttrs_def isDecorative_def isEmptyLeaf_def trim_def toLowerCase_def lowerChar_def
  isSpace_def startsWith_def truthyStr_def truthyNum_def parseChildless_def hasImageFill_def
  parseText_def sfSymbol_def SF_SYMBOLS_def objectPrototypeMembers_def getSolidFill_def
  rgbaToHex_def Math_round_def padStart2_def toString16_def toHexNat.simps hexDigit_def
  slimLeaf_def isDefaultFill_def hasVisibleCorner_def hasOpacity_def isGenericName_def
  flatten_def buildSlim_def classifyType_def keepTruthy_def getPadding_def
  hasMeaningfulPadding_def Let_def

lemma parseChildren_set:
  "p \<in> set (parseChildren cs d) \<Longrightarrow> \<exists>c \<in> set cs. parse c d False = Some p"
  by (induction cs) (auto split: option.splits)

lemma length_one_nth: "length xs = 1 \<Longrightarrow> xs = [xs ! 0]"
  by (cases xs) auto

text \<open>The four ways in which \<open>parse\<close> returns a node.\<close>

lemma parse_Some_cases:
  assumes "parse (FigmaNode a cs) d r = Some s"
  shows "d \<le> 20 \<and> \<not> isDecorative (FigmaNode a cs) \<and> \<not> isEmptyLeaf (FigmaNode a cs) \<and>
    ((type a = ''TEXT'' \<and> truthyStr (characters a) \<and> parseText (FigmaNode a cs) = Some s) \<or>
     (\<not> (type a = ''TEXT'' \<and> truthyStr (characters a)) \<and> type a \<noteq> ''TEXT'' \<and>
        parseChildren cs (d + 1) = [] \<and> parseChildless (FigmaNode a cs) = Some s) \<or>
     (\<not> (type a = ''TEXT'' \<and> truthyStr (characters a)) \<and> \<not> r \<and>
        isDefaultFill (FigmaNode a cs) \<and> \<not> hasVisibleCorner (FigmaNode a cs) \<and>
        \<not> hasOpacity (FigmaNode a cs) \<and>
        (\<exists>c. parseChildren cs (d + 1) = [c] \<and> s = flatten (FigmaNode a cs) c)) \<or>
     (\<not> (type a = ''TEXT'' \<and> truthyStr (characters a)) \<and>
        (parseChildren cs (d + 1) \<noteq> [] \<or> type a = ''TEXT'') \<and>
        s = buildSlim (FigmaNode a cs) r (parseChildren cs (d + 1))))"
  using assms length_one_nth [of "parseChildren cs (d + 1)"]
  by (auto split: if_splits)

lemma slimNodes_flatten:
  "set (slimNodes (flatten n c)) \<subseteq> insert (flatten n c) (set (slimNodes c))"
  by (cases c) (auto simp: flatten_def)

lemma slimNodes_self: "s \<in> set (slimNodes s)"
  by (cases s) simp

lemma slimNodes_buildSlim:
  "set (slimNodes (buildSlim n r cs)) =
     insert (buildSlim n r cs) (\<Union>c \<in> set cs. set (slimNodes c))"
  by (simp add: buildSlim_def Let_def)

lemma parseText_leaf: "parseText n = Some s \<Longrightarrow> slimNodes s = [s]"
  by (auto simp: parseText_def Let_def split: option.splits if_splits)

lemma parseChildless_leaf: "parseChildless n = Some s \<Longrightarrow> slimNodes s = [s]"
  by (auto simp: parseChildless_def split: if_splits)

text \<open>An induction principle for properties of every node of the output: \<open>I d n t\<close>
  relates an output node \<open>t\<close> to the raw subtree \<open>n\<close>, parsed at depth \<open>d\<close>, it comes from.\<close>

lemma parse_all_nodes:
  assumes up: "\<And>a cs c t d. c \<in> set cs \<Longrightarrow> d + 1 \<le> 20 \<Longrightarrow> I (d + 1) c t \<Longrightarrow> I d (FigmaNode a cs) t"
    and leafT: "\<And>n s d. \<not> isDecorative n \<Longrightarrow> parseText n = Some s \<Longrightarrow> I d n s"
    and leafI: "\<And>n s d. \<not> isDecorative n \<Longrightarrow> parseChildless n = Some s \<Longrightarrow> I d n s"
    and flat: "\<And>n c d. \<not> isDecorative n \<Longrightarrow> I d n c \<Longrightarrow> I d n (flatten n c)"
    and build: "\<And>n r cs d. \<not> isDecorative n \<Longrightarrow> I d n (buildSlim n r cs)"
  shows "parse n d r = Some s \<Longrightarrow> t \<in> set (slimNodes s) \<Longrightarrow> I d n t"
proof (induction n arbitrary: d r s t)
  case (FigmaNode a cs)
  let ?n = "FigmaNode a cs"
  have kids: "I d ?n u" if "p \<in> set (parseChildren cs (d + 1))" "u \<in> set (slimNodes p)" for p u
  proof -
    from that(1) obtain c where c: "c \<in> set cs" "parse c (d + 1) False = Some p"
      using parseChildren_set by blast
    with FigmaNode.IH that(2) have "I (d + 1) c u" by blast
    moreover have "d + 1 \<le> 20"
      using c(2) by (cases c) (auto split: if_splits)
    ultimately show ?thesis using c(1) up by blast
  qed
  from FigmaNode.prems(1) have cases: "\<not> isDecorative ?n"
    "parseText ?n = Some s \<or> parseChildless ?n = Some s \<or>
     (\<exists>c. parseChildren cs (d + 1) = [c] \<and> s = flatten ?n c) \<or>
     s = buildSlim ?n r (parseChildren cs (d + 1))"
    using parse_Some_cases [of a cs d r s] by auto
  from cases(2) show ?case
  proof (elim disjE exE conjE)
    assume "parseText ?n = Some s"
    with FigmaNode.prems(2) cases(1) show ?thesis
      using leafT parseText_leaf by fastforce
  next
    assume "parseChildless ?n = Some s"
    with FigmaNode.prems(2) cases(1) show ?thesis
      using leafI parseChildless_leaf by fastforce
  next
    fix c assume c: "parseChildren cs (d + 1) = [c]" "s = flatten ?n c"
    have "I d ?n c" using kids [of c c] c(1) slimNodes_self by simp
    then have top: "I d ?n (flatten ?n c)" using flat cases(1) by blast
    from FigmaNode.prems(2) c(2) have "t = flatten ?n c \<or> t \<in> set (slimNodes c)"
      using slimNodes_flatten by blast
    then show ?thesis using top kids [of c t] c(1) by auto
  next
    assume s: "s = buildSlim ?n r (parseChildren cs (d + 1))"
    from FigmaNode.prems(2)
    have "t = s \<or> (\<exists>p \<in> set (parseChildren cs (d + 1)). t \<in> set (slimNodes p))"
      unfolding s slimNodes_buildSlim by auto
    then show ?thesis using build cases(1) kids s by blast
  qed
qed

lemma rawNodes_self: "n \<in> set (rawNodes n)"
  by (cases n) simp

lemma rawNodes_child: "c \<in> set cs \<Longrightarrow> set (rawNodes c) \<subseteq> set (rawNodes (FigmaNode a cs))"
  by auto

lemma parseText_attrs:
  "parseText n = Some s \<Longrightarrow>
     name_s (attrs_s s) = name (attrs n) \<and> opacity_s (attrs_s s) = None \<and>
     cornerRadius_s (attrs_s s) = None \<and> children_s s = [] \<and>
     (type_s (attrs_s s) = ''Text'' \<or> type_s (attrs_s s) = ''Icon'')"
  by (auto simp: parseText_def Let_def slimLeaf_def split: option.splits if_splits)

lemma parseChildless_attrs:
  "parseChildless n = Some s \<Longrightarrow>
     name_s (attrs_s s) = name (attrs n) \<and> opacity_s (attrs_s s) = None \<and>
     cornerRadius_s (attrs_s s) = keepTruthy (cornerRadius (attrs n)) \<and> children_s s = [] \<and>
     type_s (attrs_s s) = ''Image'' \<and> content_s (attrs_s s) = None"
  by (auto simp: parseChildless_def slimLeaf_def split: if_splits)

lemma flatten_attrs:
  "opacity_s (attrs_s (flatten n c)) = opacity_s (attrs_s c) \<and>
   cornerRadius_s (attrs_s (flatten n c)) = cornerRadius_s (attrs_s c) \<and>
   content_s (attrs_s (flatten n c)) = content_s (attrs_s c) \<and>
   type_s (attrs_s (flatten n c)) = type_s (attrs_s c) \<and>
   children_s (flatten n c) = children_s c \<and>
   (name_s (attrs_s (flatten n c)) = name_s (attrs_s c) \<or>
    name_s (attrs_s (flatten n c)) = name (attrs n))"
  by (simp add: flatten_def)

lemma buildSlim_type: "type_s (attrs_s (buildSlim n r cs)) = classifyType n"
  by (simp add: buildSlim_def Let_def)

lemma buildSlim_opacity:
  "opacity_s (attrs_s (buildSlim n r cs)) =
     (case opacity (attrs n) of None \<Rightarrow> None | Some q \<Rightarrow> if q < 1 then Some (round2 q) else None)"
  by (simp add: buildSlim_def Let_def round2_def split: option.splits)

lemma round2_nearest: "\<bar>round2 q - q\<bar> \<le> 1 / 200 \<and> (\<exists>k::int. round2 q = real_of_int k / 100)"
proof -
  define k where "k = \<lfloor>q * 100 + 1 / 2\<rfloor>"
  have "real_of_int k \<le> q * 100 + 1 / 2" and "q * 100 + 1 / 2 < real_of_int k + 1"
    unfolding k_def by linarith+
  then have "\<bar>real_of_int k / 100 - q\<bar> \<le> 1 / 200"
    by linarith
  then show ?thesis
    unfolding round2_def Math_round_def k_def [symmetric] by blast
qed

lemma parse_labelText:
  "d \<le> 20 \<Longrightarrow>
   parse labelText d r =
     Some (SlimNode ((slimLeaf ''Label'' ''Text'')\<lparr>content_s := Some ''Continue''\<rparr>) [])"
  by (simp add: labelText_def eval_defs)

lemma parse_fadedText:
  "d \<le> 20 \<Longrightarrow>
   parse fadedText d r =
     Some (SlimNode ((slimLeaf ''Caption'' ''Text'')\<lparr>content_s := Some ''Hello''\<rparr>) [])"
  by (simp add: fadedText_def eval_defs)

lemma parse_helloText:
  "d \<le> 20 \<Longrightarrow>
   parse helloText d r =
     Some (SlimNode ((slimLeaf ''Greeting'' ''Text'')\<lparr>content_s := Some ''Hello''\<rparr>) [])"
  by (simp add: helloText_def blackFill_def eval_defs)

section \<open>C1: the scenario of the specification\<close>

text \<open>A vector without children is kept by \<open>isEmptyLeaf\<close> (``Vectors/shapes with fills might
  be icons, keep them'') and would be classified \<open>Shape\<close>, but it never gets that far: its
  list of parsed children is empty, so the rule for a node whose children were all filtered
  returns \<open>null\<close> unless it has an image fill.\<close>

lemma parse_childless_vector:
  "type a = ''VECTOR'' \<Longrightarrow> \<not> hasImageFill (FigmaNode a []) \<Longrightarrow> parse (FigmaNode a []) d r = None"
  by (simp add: parseChildless_def)

lemma parse_iconVector: "parse iconVector d r = None"
  by (simp add: iconVector_def blackFill_def eval_defs)

lemma parse_iconWrapper: "parse iconWrapper d r = None"
  by (simp add: iconWrapper_def parse_iconVector eval_defs)

lemma parse_scenarioRoot:
  "parse scenarioRoot 0 True =
     Some (SlimNode ((slimLeaf ''Screen'' ''VStack'')\<lparr>spacing_s := Some 12\<rparr>)
       [SlimNode ((slimLeaf ''Greeting'' ''Text'')\<lparr>content_s := Some ''Hello''\<rparr>) []])"
  by (simp add: scenarioRoot_def parse_helloText parse_iconWrapper eval_defs)

text \<open>C1. On the scenario input \<open>parse\<close> returns the root as a \<open>VStack\<close> with spacing 12, but
  its only child is the text \<open>Hello\<close> (without a fill): the vector is dropped, and the frame
  \<open>Icon Wrapper\<close> with it, so no \<open>Shape\<close> node named \<open>Icon Wrapper\<close> is in the output.\<close>

theorem scenario_loses_icon_wrapper:
  "parse scenarioRoot 0 True =
     Some (SlimNode ((slimLeaf ''Screen'' ''VStack'')\<lparr>spacing_s := Some 12\<rparr>)
       [SlimNode ((slimLeaf ''Greeting'' ''Text'')\<lparr>content_s := Some ''Hello''\<rparr>) []])"
  by (rule parse_scenarioRoot)

text \<open>The assembled tree of the scenario therefore has the text as its only component.\<close>

theorem scenario_loses_icon_wrapper_witness:
  "components (assemble scenarioRoot []) =
     [SlimNode ((slimLeaf ''Greeting'' ''Text'')\<lparr>content_s := Some ''Hello''\<rparr>) []]"
  using scenario_loses_icon_wrapper by (simp add: assemble_def Let_def)

section \<open>C2: opacity\<close>

text \<open>The default construction is the only place where \<open>parse\<close> sets \<open>opacity\<close>. A wrapper
  with an opacity below 1 is never flattened, so a raw node with such an opacity that yields
  an output node yields either a text leaf, an icon or a childless image, all without
  opacity, or a node built by the default construction, with the rounded opacity.\<close>

lemma opacity_only_if:
  assumes "parse n d r = Some s" "t \<in> set (slimNodes s)" "opacity_s (attrs_s t) = Some v"
  shows "\<exists>m \<in> set (rawNodes n). \<exists>q. opacity (attrs m) = Some q \<and> q < 1 \<and> v = round2 q \<and>
           type_s (attrs_s t) = classifyType m"
proof -
  let ?I = "\<lambda>(d::nat) n t. \<forall>v. opacity_s (attrs_s t) = Some v \<longrightarrow>
      (\<exists>m \<in> set (rawNodes n). \<exists>q. opacity (attrs m) = Some q \<and> q < 1 \<and> v = round2 q \<and>
           type_s (attrs_s t) = classifyType m)"
  have "?I d n t"
  proof (rule parse_all_nodes [where I = ?I, OF _ _ _ _ _ assms(1,2)])
    show "\<And>a cs c t d. c \<in> set cs \<Longrightarrow> d + 1 \<le> 20 \<Longrightarrow> ?I (d + 1) c t \<Longrightarrow> ?I d (FigmaNode a cs) t"
      using rawNodes_child by blast
    show "\<And>n s d. \<not> isDecorative n \<Longrightarrow> parseText n = Some s \<Longrightarrow> ?I d n s"
      using parseText_attrs by fastforce
    show "\<And>n s d. \<not> isDecorative n \<Longrightarrow> parseChildless n = Some s \<Longrightarrow> ?I d n s"
      using parseChildless_attrs by fastforce
    show "\<And>n c d. \<not> isDecorative n \<Longrightarrow> ?I d n c \<Longrightarrow> ?I d n (flatten n c)"
      by (simp add: flatten_attrs)
    show "\<And>n r cs d. \<not> isDecorative n \<Longrightarrow> ?I d n (buildSlim n r cs)"
      using rawNodes_self buildSlim_type
      by (fastforce simp: buildSlim_opacity split: option.splits if_splits)
  qed
  with assms(3) show ?thesis by blast
qed

lemma opacity_if:
  assumes "parse n d r = Some s" "opacity (attrs n) = Some q" "q < 1"
  shows "opacity_s (attrs_s s) = Some (round2 q) \<or>
    (opacity_s (attrs_s s) = None \<and> children_s s = [] \<and>
     type_s (attrs_s s) \<in> set [''Text'', ''Icon'', ''Image''] \<and>
     (content_s (attrs_s s) \<noteq> None) = (type_s (attrs_s s) = ''Text''))"
proof (cases n)
  case (FigmaNode a cs)
  have op: "hasOpacity n" using assms(2,3) by (simp add: hasOpacity_def)
  from assms(1) FigmaNode have
    "parseText n = Some s \<or> parseChildless n = Some s \<or>
     s = buildSlim n r (parseChildren cs (d + 1))"
    using parse_Some_cases [of a cs d r s] op by auto
  then show ?thesis
  proof (elim disjE)
    assume "parseText n = Some s"
    then show ?thesis
      by (auto simp: parseText_def Let_def slimLeaf_def split: option.splits if_splits)
  next
    assume "parseChildless n = Some s"
    then show ?thesis using parseChildless_attrs [of n s] by simp
  next
    assume "s = buildSlim n r (parseChildren cs (d + 1))"
    then show ?thesis using assms(2,3) by (simp add: buildSlim_opacity)
  qed
qed

text \<open>C2 (amended). In the output of \<open>parse\<close>, an opacity is present on a node only if some
  raw node of the input, of which the output node has the category, has an opacity strictly
  less than 1, and it is then that value rounded to two decimals. Conversely a raw node
  with an opacity strictly less than 1 yields a node carrying the rounded value, unless it
  yields a leaf without opacity: a \<open>Text\<close> with content, an \<open>Icon\<close> or a childless
  \<open>Image\<close>.\<close>

theorem opacity_in_output:
  assumes "parse n d r = Some s"
  shows "(\<forall>t \<in> set (slimNodes s). \<forall>v. opacity_s (attrs_s t) = Some v \<longrightarrow>
            (\<exists>m \<in> set (rawNodes n). \<exists>q. opacity (attrs m) = Some q \<and> q < 1 \<and> v = round2 q \<and>
               type_s (attrs_s t) = classifyType m)) \<and>
         (\<forall>q. opacity (attrs n) = Some q \<and> q < 1 \<longrightarrow>
            opacity_s (attrs_s s) = Some (round2 q) \<or>
            (opacity_s (attrs_s s) = None \<and> children_s s = [] \<and>
             type_s (attrs_s s) \<in> set [''Text'', ''Icon'', ''Image''] \<and>
             (content_s (attrs_s s) \<noteq> None) = (type_s (attrs_s s) = ''Text'')))"
  using opacity_only_if [OF assms] opacity_if [OF assms] by blast

lemma parse_fadedCard:
  "parse fadedCard 0 True =
     Some (SlimNode ((slimLeaf ''Card'' ''Frame'')\<lparr>opacity_s := Some (46 / 100)\<rparr>)
       [SlimNode ((slimLeaf ''Greeting'' ''Text'')\<lparr>content_s := Some ''Hello''\<rparr>) [],
        SlimNode ((slimLeaf ''Caption'' ''Text'')\<lparr>content_s := Some ''Hello''\<rparr>) []])"
  by (simp add: fadedCard_def parse_helloText parse_fadedText eval_defs)

text \<open>A card with opacity 0.456 and two texts: the card carries 0.46.\<close>

theorem opacity_in_output_witness:
  "parse fadedCard 0 True =
     Some (SlimNode ((slimLeaf ''Card'' ''Frame'')\<lparr>opacity_s := Some (46 / 100)\<rparr>)
       [SlimNode ((slimLeaf ''Greeting'' ''Text'')\<lparr>content_s := Some ''Hello''\<rparr>) [],
        SlimNode ((slimLeaf ''Caption'' ''Text'')\<lparr>content_s := Some ''Hello''\<rparr>) []]) \<and>
   opacity (attrs fadedCard) = Some (456 / 1000) \<and> round2 (456 / 1000) = 46 / 100 \<and>
   (\<exists>m \<in> set (rawNodes fadedCard). \<exists>q. opacity (attrs m) = Some q \<and> q < 1 \<and> 46 / 100 = round2 q)"
proof -
  let ?s = "SlimNode ((slimLeaf ''Card'' ''Frame'')\<lparr>opacity_s := Some (46 / 100)\<rparr>)
       [SlimNode ((slimLeaf ''Greeting'' ''Text'')\<lparr>content_s := Some ''Hello''\<rparr>) [],
        SlimNode ((slimLeaf ''Caption'' ''Text'')\<lparr>content_s := Some ''Hello''\<rparr>) []]"
  have "?s \<in> set (slimNodes ?s)" "opacity_s (attrs_s ?s) = Some (46 / 100)"
    by (simp_all add: slimLeaf_def)
  with opacity_in_output [OF parse_fadedCard]
  have "\<exists>m \<in> set (rawNodes fadedCard). \<exists>q. opacity (attrs m) = Some q \<and> q < 1 \<and> 46 / 100 = round2 q"
    by blast
  moreover have "opacity (attrs fadedCard) = Some (456 / 1000)"
    by (simp add: fadedCard_def rawAttrs_def)
  moreover have "round2 (456 / 1000) = 46 / 100"
    by (simp add: round2_def Math_round_def)
  ultimately show ?thesis using parse_fadedCard by blast
qed

text \<open>The claim as stated fails on a text leaf: the text \<open>Hello\<close> with opacity 0.5 is
  returned without an opacity.\<close>

theorem text_leaf_drops_opacity:
  "opacity (attrs fadedText) = Some (1 / 2) \<and> (1 / 2 :: real) < 1 \<and>
   parse fadedText 0 True =
     Some (SlimNode ((slimLeaf ''Caption'' ''Text'')\<lparr>content_s := Some ''Hello''\<rparr>) []) \<and>
   opacity_s ((slimLeaf ''Caption'' ''Text'')\<lparr>content_s := Some ''Hello''\<rparr>) = None"
  by (simp add: parse_fadedText) (simp add: fadedText_def rawAttrs_def slimLeaf_def)

section \<open>C3: corner radii\<close>

text \<open>What the code guarantees for a corner radius of the output: it is not zero, and it is
  strictly between 0 and 999 unless the node is a childless \<open>Image\<close>, where any non-zero
  raw radius is passed on.\<close>

lemma radius_in_output:
  assumes "parse n d r = Some s" "t \<in> set (slimNodes s)" "cornerRadius_s (attrs_s t) = Some v"
  shows "v \<noteq> 0 \<and> ((0 < v \<and> v < 999) \<or> (type_s (attrs_s t) = ''Image'' \<and> children_s t = []))"
proof -
  let ?I = "\<lambda>(d::nat) (n::FigmaNode) t. \<forall>v. cornerRadius_s (attrs_s t) = Some v \<longrightarrow>
      v \<noteq> 0 \<and> ((0 < v \<and> v < 999) \<or> (type_s (attrs_s t) = ''Image'' \<and> children_s t = []))"
  have "?I d n t"
  proof (rule parse_all_nodes [where I = ?I, OF _ _ _ _ _ assms(1,2)])
    show "\<And>n s d. \<not> isDecorative n \<Longrightarrow> parseText n = Some s \<Longrightarrow> ?I d n s"
      using parseText_attrs by fastforce
    show "\<And>n s d. \<not> isDecorative n \<Longrightarrow> parseChildless n = Some s \<Longrightarrow> ?I d n s"
      using parseChildless_attrs
      by (fastforce simp: keepTruthy_def truthyNum_def split: if_splits)
    show "\<And>n c d. \<not> isDecorative n \<Longrightarrow> ?I d n c \<Longrightarrow> ?I d n (flatten n c)"
      by (simp add: flatten_attrs)
    show "\<And>n r cs d. \<not> isDecorative n \<Longrightarrow> ?I d n (buildSlim n r cs)"
      by (auto simp: buildSlim_def Let_def split: option.splits if_splits)
  qed simp
  with assms(3) show ?thesis by blast
qed

text \<open>C3. A corner radius of the output is not always strictly between 0 and 100: a frame
  with corner radius 500 and two surviving children is built by the default construction,
  whose test is \<open>cornerRadius < 999\<close>, and its output carries the radius 500.\<close>

theorem large_radius_kept:
  "cornerRadius (attrs pillCard) = Some 500 \<and>
   parse pillCard 0 True =
     Some (SlimNode ((slimLeaf ''Card'' ''Frame'')\<lparr>cornerRadius_s := Some 500\<rparr>)
       [SlimNode ((slimLeaf ''Greeting'' ''Text'')\<lparr>content_s := Some ''Hello''\<rparr>) [],
        SlimNode ((slimLeaf ''Label'' ''Text'')\<lparr>content_s := Some ''Continue''\<rparr>) []])"
  by (simp add: pillCard_def parse_helloText parse_labelText eval_defs)

theorem large_radius_kept_witness:
  "\<exists>s. parse pillCard 0 True = Some s \<and> cornerRadius_s (attrs_s s) = Some 500 \<and> \<not> (500 :: real) < 100"
  using large_radius_kept by (simp add: slimLeaf_def)

section \<open>C4: single-child flattening\<close>

text \<open>C4 (amended). Let a node be parsed as a non-root node, pass the depth and decorative
  guards, not be a text leaf, and have exactly one surviving parsed child; let it have no
  solid fill other than black or white (6 or 8 digits), no corner radius strictly between 0
  and 100 and no opacity below 1. If its lower-cased name starts with \<open>frame\<close>,
  \<open>accessories\<close> or \<open>_\<close>, or is \<open>container\<close>, \<open>contents\<close>, \<open>content\<close>, \<open>text\<close> or \<open>image\<close>,
  \<open>parse\<close> returns the child unchanged; otherwise it returns the child with its name
  replaced by the node's name and everything else untouched.\<close>

theorem single_child_flattening:
  assumes guards: "depth \<le> 20" "\<not> isDecorative (FigmaNode a cs)"
      "\<not> (type a = ''TEXT'' \<and> truthyStr (characters a))"
    and one: "parseChildren cs (depth + 1) = [child]"
    and fill: "getSolidFill (FigmaNode a cs) \<in>
        {None, Some ''#000000'', Some ''#ffffff'', Some ''#000000ff'', Some ''#ffffffff''}"
    and corner: "\<forall>c. cornerRadius a = Some c \<longrightarrow> \<not> (0 < c \<and> c < 100)"
    and opaque: "\<forall>q. opacity a = Some q \<longrightarrow> \<not> q < 1"
  shows "parse (FigmaNode a cs) depth False =
     Some (if startsWith (toLowerCase (name a)) ''frame'' \<or>
              toLowerCase (name a) \<in> {''container'', ''contents'', ''content'', ''text'', ''image''} \<or>
              startsWith (toLowerCase (name a)) ''accessories'' \<or>
              startsWith (toLowerCase (name a)) ''_''
           then child
           else SlimNode ((attrs_s child)\<lparr>name_s := name a\<rparr>) (children_s child))"
proof -
  let ?n = "FigmaNode a cs"
  from one have "cs \<noteq> []" by auto
  then have leaf: "\<not> isEmptyLeaf ?n" by (simp add: isEmptyLeaf_def)
  from fill have df: "isDefaultFill ?n"
    by (auto simp: isDefaultFill_def Let_def truthyStr_def)
  from corner have vc: "\<not> hasVisibleCorner ?n"
    by (auto simp: hasVisibleCorner_def split: option.splits)
  from opaque have op: "\<not> hasOpacity ?n"
    by (auto simp: hasOpacity_def split: option.splits)
  have "parse ?n depth False = Some (flatten ?n child)"
    using guards leaf df vc op one by auto
  then show ?thesis
    by (simp add: flatten_def isGenericName_def)
qed

text \<open>\<open>Primary Action\<close> around a text gives its name to the text; \<open>Container\<close> does
  not.\<close>

theorem single_child_flattening_witness:
  "parse actionWrapper 1 False =
     Some (SlimNode ((slimLeaf ''Primary Action'' ''Text'')\<lparr>content_s := Some ''Continue''\<rparr>) []) \<and>
   parse containerWrapper 1 False =
     Some (SlimNode ((slimLeaf ''Label'' ''Text'')\<lparr>content_s := Some ''Continue''\<rparr>) [])"
proof -
  let ?c = "SlimNode ((slimLeaf ''Label'' ''Text'')\<lparr>content_s := Some ''Continue''\<rparr>) []"
  have kids: "parseChildren [labelText] (1 + 1) = [?c]"
    by (simp add: parse_labelText)
  have a: "parse actionWrapper 1 False = Some (SlimNode ((attrs_s ?c)\<lparr>name_s := ''Primary Action''\<rparr>) (children_s ?c))"
    using single_child_flattening [of 1 "rawAttrs ''4:3'' ''Primary Action'' ''FRAME''" "[labelText]" ?c, OF _ _ _ kids]
    by (simp add: actionWrapper_def eval_defs)
  have b: "parse containerWrapper 1 False = Some ?c"
    using single_child_flattening [of 1 "rawAttrs ''4:4'' ''Container'' ''FRAME''" "[labelText]" ?c, OF _ _ _ kids]
    by (simp add: containerWrapper_def eval_defs)
  from a b show ?thesis by (simp add: slimLeaf_def)
qed

text \<open>The claim as stated fails on a wrapper named \<open>Frame 1\<close>: its lower-cased name is not
  \<open>frame\<close>, yet the child keeps its own name \<open>Label\<close>, because the code tests
  \<open>startsWith("frame")\<close>.\<close>

theorem frame_prefix_is_generic:
  "toLowerCase ''Frame 1'' = ''frame 1'' \<and>
   parseChildren [labelText] 2 =
     [SlimNode ((slimLeaf ''Label'' ''Text'')\<lparr>content_s := Some ''Continue''\<rparr>) []] \<and>
   parse frameWrapper 1 False =
     Some (SlimNode ((slimLeaf ''Label'' ''Text'')\<lparr>content_s := Some ''Continue''\<rparr>) []) \<and>
   parse frameWrapper 1 False \<noteq>
     Some (SlimNode ((slimLeaf ''Frame 1'' ''Text'')\<lparr>content_s := Some ''Continue''\<rparr>) [])"
  by (simp add: parse_labelText) (simp add: frameWrapper_def parse_labelText eval_defs)

section \<open>C5: decorative names\<close>

lemma not_decorative_name:
  "\<not> isDecorative n \<Longrightarrow> \<not> denylistName (trim (toLowerCase (name (attrs n))))"
  by (auto simp: isDecorative_def denylistName_def Let_def split: if_splits)

text \<open>C5 (amended). No node of the output of \<open>parse\<close> has a trimmed, lower-cased name that
  matches a name pattern of the decorative denylist (system chrome, visual-effect layers,
  background placeholders, scroll chrome, structural noise), also after single-child
  flattening has given a child the name of its wrapper: every name of the output is the
  name of a raw node that is not decorative. The rule for \<open>overlay\<close> is a test on the raw
  node's children: an output node named \<open>overlay\<close> has its name from a raw node with
  children, and may itself be childless.\<close>

theorem no_denylisted_name_in_output:
  assumes "parse n d r = Some s" "t \<in> set (slimNodes s)"
  shows "\<not> denylistName (trim (toLowerCase (name_s (attrs_s t)))) \<and>
         (\<exists>m \<in> set (rawNodes n). \<not> isDecorative m \<and> name_s (attrs_s t) = name (attrs m))"
proof -
  let ?I = "\<lambda>(d::nat) n t.
      \<exists>m \<in> set (rawNodes n). \<not> isDecorative m \<and> name_s (attrs_s t) = name (attrs m)"
  have named: "?I d n t"
  proof (rule parse_all_nodes [where I = ?I, OF _ _ _ _ _ assms])
    show "\<And>a cs c t d. c \<in> set cs \<Longrightarrow> d + 1 \<le> 20 \<Longrightarrow> ?I (d + 1) c t \<Longrightarrow> ?I d (FigmaNode a cs) t"
      using rawNodes_child by blast
    show "\<And>n s d. \<not> isDecorative n \<Longrightarrow> parseText n = Some s \<Longrightarrow> ?I d n s"
      using parseText_attrs rawNodes_self by blast
    show "\<And>n s d. \<not> isDecorative n \<Longrightarrow> parseChildless n = Some s \<Longrightarrow> ?I d n s"
      using parseChildless_attrs rawNodes_self by blast
    show "\<And>n c d. \<not> isDecorative n \<Longrightarrow> ?I d n c \<Longrightarrow> ?I d n (flatten n c)"
      using rawNodes_self by (auto simp: flatten_def)
    show "\<And>n r cs d. \<not> isDecorative n \<Longrightarrow> ?I d n (buildSlim n r cs)"
      using rawNodes_self by (auto simp: buildSlim_def Let_def)
  qed
  then show ?thesis using not_decorative_name by metis
qed

lemma parse_overlayWrapper:
  "d < 20 \<Longrightarrow>
   parse overlayWrapper d False =
     Some (SlimNode ((slimLeaf ''Overlay'' ''Text'')\<lparr>content_s := Some ''Continue''\<rparr>) [])"
  by (simp add: overlayWrapper_def parse_labelText eval_defs)

lemma parse_overlayScreen:
  "parse overlayScreen 0 True =
     Some (SlimNode (slimLeaf ''Sheet'' ''Frame'')
       [SlimNode ((slimLeaf ''Greeting'' ''Text'')\<lparr>content_s := Some ''Hello''\<rparr>) [],
        SlimNode ((slimLeaf ''Overlay'' ''Text'')\<lparr>content_s := Some ''Continue''\<rparr>) []])"
  by (simp add: overlayScreen_def parse_helloText parse_overlayWrapper eval_defs)

text \<open>The names of the two output nodes of a sheet with a text and an overlay wrapper.\<close>

theorem no_denylisted_name_in_output_witness:
  "\<not> denylistName (trim (toLowerCase ''Greeting'')) \<and> \<not> denylistName (trim (toLowerCase ''Overlay''))"
proof -
  let ?g = "SlimNode ((slimLeaf ''Greeting'' ''Text'')\<lparr>content_s := Some ''Hello''\<rparr>) []"
  let ?o = "SlimNode ((slimLeaf ''Overlay'' ''Text'')\<lparr>content_s := Some ''Continue''\<rparr>) []"
  have "?g \<in> set (slimNodes (SlimNode (slimLeaf ''Sheet'' ''Frame'') [?g, ?o]))"
    and "?o \<in> set (slimNodes (SlimNode (slimLeaf ''Sheet'' ''Frame'') [?g, ?o]))"
    by simp_all
  from no_denylisted_name_in_output [OF parse_overlayScreen this(1)]
    no_denylisted_name_in_output [OF parse_overlayScreen this(2)]
  show ?thesis by (simp add: slimLeaf_def)
qed

text \<open>The claim as stated fails for \<open>overlay\<close>: a raw frame named \<open>Overlay\<close> with one text
  child is not decorative (it has a child); flattening gives its name to the text, and the
  output holds a childless node named \<open>Overlay\<close>.\<close>

theorem flattening_yields_childless_overlay:
  "parse overlayScreen 0 True =
     Some (SlimNode (slimLeaf ''Sheet'' ''Frame'')
       [SlimNode ((slimLeaf ''Greeting'' ''Text'')\<lparr>content_s := Some ''Hello''\<rparr>) [],
        SlimNode ((slimLeaf ''Overlay'' ''Text'')\<lparr>content_s := Some ''Continue''\<rparr>) []]) \<and>
   matchesDenylist (SlimNode ((slimLeaf ''Overlay'' ''Text'')\<lparr>content_s := Some ''Continue''\<rparr>) [])"
  by (simp add: parse_overlayScreen)
     (simp add: matchesDenylist_def slimLeaf_def trim_def toLowerCase_def lowerChar_def isSpace_def)

section \<open>C6: the depth cap\<close>

lemma nodesWithin_self: "n \<in> set (nodesWithin k n)"
  by (cases n) simp

lemma nodesWithin_child:
  "c \<in> set cs \<Longrightarrow> set (nodesWithin k c) \<subseteq> set (nodesWithin (Suc k) (FigmaNode a cs))"
  by auto

lemma fromWithin_mono:
  assumes "set (nodesWithin k c) \<subseteq> set (nodesWithin k' n)" "fromWithin k c t"
  shows "fromWithin k' n t"
proof -
  have ex: "list_ex P (nodesWithin k c) \<Longrightarrow> list_ex P (nodesWithin k' n)" for P
    using assms(1) unfolding list_ex_iff by blast
  from assms(2) show ?thesis
    unfolding fromWithin_def by (auto split: option.splits intro: ex)
qed

lemma fromWithin_up:
  assumes "c \<in> set cs" "d + 1 \<le> 20" "fromWithin (20 - (d + 1)) c t"
  shows "fromWithin (20 - d) (FigmaNode a cs) t"
proof -
  from assms(2) have "20 - d = Suc (20 - (d + 1))" by simp
  then have "set (nodesWithin (20 - (d + 1)) c) \<subseteq> set (nodesWithin (20 - d) (FigmaNode a cs))"
    using nodesWithin_child [OF assms(1)] by metis
  then show ?thesis using assms(3) by (rule fromWithin_mono)
qed

lemma fromWithin_selfI:
  assumes "name_s (attrs_s t) = name (attrs n)"
    and "case content_s (attrs_s t) of None \<Rightarrow> True
         | Some c \<Rightarrow> map_option trim (characters (attrs n)) = Some c"
    and "case icon_s (attrs_s t) of None \<Rightarrow> True
         | Some i \<Rightarrow> (case characters (attrs n) of None \<Rightarrow> False
                      | Some w \<Rightarrow> sfSymbol (trim w) = Some i)"
  shows "fromWithin k n t"
proof -
  have ex: "P n \<Longrightarrow> list_ex P (nodesWithin k n)" for P
    using nodesWithin_self [of n k] unfolding list_ex_iff by blast
  from assms show ?thesis
    unfolding fromWithin_def by (auto split: option.splits intro!: ex)
qed

lemma fromWithin_parseText: "parseText n = Some s \<Longrightarrow> fromWithin k n s"
  by (rule fromWithin_selfI)
     (auto simp: parseText_def Let_def slimLeaf_def split: option.splits if_splits)

lemma fromWithin_parseChildless: "parseChildless n = Some s \<Longrightarrow> fromWithin k n s"
  by (rule fromWithin_selfI) (auto simp: parseChildless_def slimLeaf_def split: if_splits)

lemma fromWithin_flatten:
  assumes "fromWithin k n c"
  shows "fromWithin k n (flatten n c)"
proof (cases "isGenericName (toLowerCase (name (attrs n)))")
  case True
  then show ?thesis using assms by (simp add: flatten_def)
next
  case False
  have "list_ex (\<lambda>m. name (attrs n) = name (attrs m)) (nodesWithin k n)"
    using nodesWithin_self [of n k] unfolding list_ex_iff by blast
  then show ?thesis using assms False by (simp add: flatten_def fromWithin_def)
qed

lemma fromWithin_buildSlim: "fromWithin k n (buildSlim n r cs)"
  by (rule fromWithin_selfI) (simp_all add: buildSlim_def Let_def)

lemma output_fromWithin:
  assumes "parse n d r = Some s" "t \<in> set (slimNodes s)"
  shows "fromWithin (20 - d) n t"
  by (rule parse_all_nodes [where I = "\<lambda>d. fromWithin (20 - d)", OF _ _ _ _ _ assms])
     (auto intro: fromWithin_up fromWithin_parseText fromWithin_parseChildless
        fromWithin_flatten fromWithin_buildSlim)

text \<open>C6. Beyond depth 20 \<open>parse\<close> returns \<open>null\<close> (no exception: it is a total function)
  for every node, whatever its content, and the loop over a list of children at such a
  depth collects nothing. Hence every node of an output is made of raw nodes within the cap:
  for a call at depth \<open>d\<close>, of nodes at most \<open>20 - d\<close> levels below the node parsed.\<close>

theorem depth_cap:
  "(20 < depth \<longrightarrow> parse node depth isRoot = None \<and> parseChildren nodes depth = []) \<and>
   (\<forall>s t. parse node depth isRoot = Some s \<and> t \<in> set (slimNodes s) \<longrightarrow>
      fromWithin (20 - depth) node t)"
proof (intro conjI impI allI)
  assume deep: "20 < depth"
  then show none: "parse node depth isRoot = None" for node isRoot
    by (cases node) simp
  show "parseChildren nodes depth = []"
    by (induction nodes) (simp_all add: none)
next
  fix s t assume "parse node depth isRoot = Some s \<and> t \<in> set (slimNodes s)"
  then show "fromWithin (20 - depth) node t"
    using output_fromWithin by blast
qed

text \<open>At depth 25 the text \<open>Hello\<close> is absent; at depth 20 it is kept, and made of the raw
  text itself.\<close>

theorem depth_cap_witness:
  "(20::nat) < 25 \<and> parse helloText 25 False = None \<and>
   parseChildren [helloText, scenarioRoot] 25 = [] \<and>
   parse helloText 20 False =
     Some (SlimNode ((slimLeaf ''Greeting'' ''Text'')\<lparr>content_s := Some ''Hello''\<rparr>) []) \<and>
   fromWithin 0 helloText
     (SlimNode ((slimLeaf ''Greeting'' ''Text'')\<lparr>content_s := Some ''Hello''\<rparr>) [])"
proof -
  let ?t = "SlimNode ((slimLeaf ''Greeting'' ''Text'')\<lparr>content_s := Some ''Hello''\<rparr>) []"
  have deep: "(20::nat) < 25" by simp
  have kept: "parse helloText 20 False = Some ?t"
    by (simp add: parse_helloText)
  have "parse helloText 25 False = None \<and> parseChildren [helloText, scenarioRoot] 25 = []"
    using deep depth_cap [of 25 helloText False "[helloText, scenarioRoot]"] by blast
  moreover have "fromWithin 0 helloText ?t"
    using kept depth_cap [of 20 helloText False "[]"] by simp
  ultimately show ?thesis using deep kept by blast
qed

section \<open>C7: the precedence of the classifier\<close>

lemma hasTextDescendant_subtree: "hasTextDescendant node = hasTextInSubtree node"
proof (induction node)
  case (FigmaNode a cs)
  then show ?case
    by (auto simp: hasTextInSubtree_def list_ex_iff)
qed

lemma hasImageFill_at_least_one: "hasImageFill node = hasAtLeastOneImageFill node"
  by (auto simp: hasImageFill_def hasAtLeastOneImageFill_def list_ex_iff filter_empty_conv
      split: option.splits)

text \<open>C7. \<open>classifyType\<close> is the first matching rule of the list: text kind gives \<open>Text\<close>;
  vector or boolean-shape kind gives \<open>Shape\<close>; at least one image fill and no node of text
  kind in the subtree (the node included) gives \<open>Image\<close>, before the layout axis is looked
  at; then a horizontal axis gives \<open>HStack\<close>, a vertical one \<open>VStack\<close>, instance or component
  kind \<open>Component\<close>, frame or group kind \<open>Frame\<close>, and anything else \<open>View\<close>.\<close>

theorem classifyType_precedence:
  "classifyType node = firstMatch (classifyRules node) ''View''"
  by (simp add: classifyType_def classifyRules_def firstMatch_def
      hasTextDescendant_subtree hasImageFill_at_least_one)

text \<open>A frame with an image fill and a horizontal axis is an \<open>Image\<close>, not an
  \<open>HStack\<close>.\<close>

theorem classifyType_precedence_witness:
  "classifyType photoRow = ''Image'' \<and> classifyType helloText = ''Text'' \<and>
   classifyType iconVector = ''Shape'' \<and> classifyType scenarioRoot = ''VStack'' \<and>
   classifyType iconWrapper = ''Frame''"
  using classifyType_precedence [of photoRow] classifyType_precedence [of helloText]
    classifyType_precedence [of iconVector] classifyType_precedence [of scenarioRoot]
    classifyType_precedence [of iconWrapper]
  by (simp add: classifyRules_def firstMatch_def hasAtLeastOneImageFill_def
      hasTextInSubtree_def photoRow_def helloText_def iconVector_def scenarioRoot_def
      iconWrapper_def imageFill_def blackFill_def rawAttrs_def)

section \<open>C8: a failing variables endpoint\<close>

text \<open>C8. When the variables endpoint answers with a response that is not \<open>ok\<close>,
  \<open>fetchFigmaVariables\<close> writes one line to the error console and returns the empty object
  instead of throwing. It cannot abort the retrieval of the tree either: \<open>getSwiftTree\<close>
  never reads the variables endpoint, so its result is the same whatever that endpoint
  does.\<close>

theorem variables_failure_degrades:
  assumes "getVariables api fileKey token = Resolved response" "\<not> ok response"
  shows "fetchFigmaVariables api fileKey token =
           ([VariablesApiErrorLine (status response)], Inr []) \<and>
         getSwiftTree (api\<lparr>getVariables := v\<rparr>) fileKey nodeId token =
           getSwiftTree api fileKey nodeId token"
  using assms by (simp add: fetchFigmaVariables_def getSwiftTree_def fetchFigmaNode_def)

theorem variables_failure_degrades_witness:
  "fetchFigmaVariables demoApi ''Wi3zPekZ'' ''secret'' = ([VariablesApiErrorLine 403], Inr []) \<and>
   getSwiftTree demoApi ''Wi3zPekZ'' ''1:1'' ''secret'' = Inr (assemble scenarioRoot [])"
proof -
  let ?resp = "\<lparr>ok = False, status = 403, text_body = ''Forbidden'', json = None\<rparr> :: VariablesJson Response"
  have "getVariables demoApi ''Wi3zPekZ'' ''secret'' = Resolved ?resp" "\<not> ok ?resp"
    by (simp_all add: demoApi_def)
  from variables_failure_degrades [OF this, of "getVariables demoApi" "''1:1''"]
  show ?thesis
    by (simp add: getSwiftTree_def fetchFigmaNode_def demoApi_def)
qed

section \<open>C9: text nodes without characters\<close>

text \<open>C9 (amended). A text node without children whose \<open>characters\<close> are absent or empty,
  that passes the depth guard and is not decorative, is not pruned: \<open>parse\<close> returns a node
  of category \<open>Text\<close> with the node's name, no content and no children. A text node whose
  characters are not empty but consist of white space is pruned, wherever it stands.\<close>

theorem empty_text_kept:
  assumes "type a = ''TEXT''"
  shows "(characters a = None \<or> characters a = Some [] \<longrightarrow>
            depth \<le> 20 \<longrightarrow> \<not> isDecorative (FigmaNode a []) \<longrightarrow>
            (\<exists>s. parse (FigmaNode a []) depth isRoot = Some s \<and>
                 type_s (attrs_s s) = ''Text'' \<and> name_s (attrs_s s) = name a \<and>
                 content_s (attrs_s s) = None \<and> children_s s = [])) \<and>
         (\<forall>w. characters a = Some w \<and> w \<noteq> [] \<and> trim w = [] \<longrightarrow>
            parse (FigmaNode a cs) depth isRoot = None)"
proof (intro conjI impI allI)
  assume c: "characters a = None \<or> characters a = Some []" and d: "depth \<le> 20"
    and nd: "\<not> isDecorative (FigmaNode a [])"
  from c have nt: "\<not> truthyStr (characters a)" "\<not> truthyStr (map_option trim (characters a))"
    by (auto simp: truthyStr_def trim_def)
  then have "parse (FigmaNode a []) depth isRoot = Some (buildSlim (FigmaNode a []) isRoot [])"
    using assms d nd by (simp add: isEmptyLeaf_def)
  then show "\<exists>s. parse (FigmaNode a []) depth isRoot = Some s \<and>
                 type_s (attrs_s s) = ''Text'' \<and> name_s (attrs_s s) = name a \<and>
                 content_s (attrs_s s) = None \<and> children_s s = []"
    using assms by (simp add: buildSlim_def classifyType_def Let_def)
next
  fix w assume w: "characters a = Some w \<and> w \<noteq> [] \<and> trim w = []"
  then show "parse (FigmaNode a cs) depth isRoot = None"
    using assms by (simp add: isEmptyLeaf_def truthyStr_def parseText_def)
qed

text \<open>A placeholder text with empty characters is kept, one with two blanks is not.\<close>

theorem empty_text_kept_witness:
  "(\<exists>s. parse emptyText 3 False = Some s \<and> type_s (attrs_s s) = ''Text'' \<and>
        name_s (attrs_s s) = ''Placeholder'' \<and> content_s (attrs_s s) = None \<and>
        children_s s = []) \<and>
   parse blankText 3 False = None"
proof -
  have "\<exists>s. parse emptyText 3 False = Some s \<and> type_s (attrs_s s) = ''Text'' \<and>
        name_s (attrs_s s) = ''Placeholder'' \<and> content_s (attrs_s s) = None \<and>
        children_s s = []"
    using empty_text_kept
      [of "(rawAttrs ''7:1'' ''Placeholder'' ''TEXT'')\<lparr>characters := Some []\<rparr>" 3 False "[]"]
    by (simp add: emptyText_def rawAttrs_def isDecorative_def trim_def toLowerCase_def
        lowerChar_def isSpace_def startsWith_def)
  moreover have "parse blankText 3 False = None"
    using empty_text_kept
      [of "(rawAttrs ''7:3'' ''Placeholder'' ''TEXT'')\<lparr>characters := Some ''  ''\<rparr>" 3 False "[]"]
    by (simp add: blankText_def rawAttrs_def trim_def isSpace_def)
  ultimately show ?thesis by simp
qed

text \<open>The claim as stated fails on a hidden node: a text node with empty characters and
  \<open>visible: false\<close> is decorative and pruned.\<close>

theorem hidden_empty_text_pruned:
  "type (attrs hiddenEmptyText) = ''TEXT'' \<and> characters (attrs hiddenEmptyText) = Some [] \<and>
   children hiddenEmptyText = [] \<and> parse hiddenEmptyText 0 False = None"
  by (simp add: hiddenEmptyText_def rawAttrs_def isDecorative_def)

section \<open>C10: the depth parameter of the tool\<close>

text \<open>C10. The handler of \<open>get_swift_tree\<close> reads the file key and the node id of its
  input and nothing else: two inputs that differ in \<open>depth\<close> only give the same result
  against the same API and token.\<close>

theorem depth_argument_ignored:
  "arg_fileKey i1 = arg_fileKey i2 \<Longrightarrow> arg_nodeId i1 = arg_nodeId i2 \<Longrightarrow>
   get_swift_tree api token i1 = get_swift_tree api token i2"
  by (simp add: get_swift_tree_def)

theorem depth_argument_ignored_witness:
  "get_swift_tree demoApi ''secret'' \<lparr>arg_fileKey = ''Wi3zPekZ'', arg_nodeId = ''1:1'', arg_depth = Some 3\<rparr> =
   get_swift_tree demoApi ''secret'' \<lparr>arg_fileKey = ''Wi3zPekZ'', arg_nodeId = ''1:1'', arg_depth = Some 50\<rparr> \<and>
   get_swift_tree demoApi ''secret'' \<lparr>arg_fileKey = ''Wi3zPekZ'', arg_nodeId = ''1:1'', arg_depth = Some 3\<rparr> =
   get_swift_tree demoApi ''secret'' \<lparr>arg_fileKey = ''Wi3zPekZ'', arg_nodeId = ''1:1'', arg_depth = None\<rparr>"
  using depth_argument_ignored [of "\<lparr>arg_fileKey = ''Wi3zPekZ'', arg_nodeId = ''1:1'', arg_depth = Some 3\<rparr>"
      "\<lparr>arg_fileKey = ''Wi3zPekZ'', arg_nodeId = ''1:1'', arg_depth = Some 50\<rparr>" demoApi "''secret''"]
    depth_argument_ignored [of "\<lparr>arg_fileKey = ''Wi3zPekZ'', arg_nodeId = ''1:1'', arg_depth = Some 3\<rparr>"
      "\<lparr>arg_fileKey = ''Wi3zPekZ'', arg_nodeId = ''1:1'', arg_depth = None\<rparr>" demoApi "''secret''"]
  by simp

end
